theory Spec2Isabelle
  imports
    Main
    "HOL-Library.Monad_Syntax"
    "HOL-Library.Char_ord"
    "HOL-Library.List_Lexorder"
    "HOL-Library.Word"
    "HOL-Library.Multiset"
begin

section \<open>The resolved schema model read by the generator\<close>

text \<open>
  The generator of \<^verbatim>\<open>cmd/protoc-gen-go/internal_gengo/main.go\<close> reads a resolved
  model made of \<^verbatim>\<open>protogen\<close> entities and their \<^verbatim>\<open>protoreflect\<close> descriptors.
  Descriptors without references to other entities are records; fields and messages
  refer to each other and form a mutually recursive datatype. A Go pointer that may be
  nil is an \<open>option\<close>. An entity reached through a pointer is carried as a copy of what
  the generator reads behind that pointer.
\<close>

datatype Kind =
    BoolKind | EnumKind | Int32Kind | Sint32Kind | Uint32Kind
  | Int64Kind | Sint64Kind | Uint64Kind | Sfixed32Kind | Fixed32Kind | FloatKind
  | Sfixed64Kind | Fixed64Kind | DoubleKind | StringKind | BytesKind
  | MessageKind | GroupKind

datatype Cardinality = Optional | Required | Repeated

datatype Syntax = Proto2 | Proto3

text \<open>
  A \<^verbatim>\<open>float64\<close> as the generator looks at it: \<^verbatim>\<open>math.IsInf(f, -1)\<close>,
  \<^verbatim>\<open>math.IsInf(f, 1)\<close> and \<^verbatim>\<open>math.IsNaN(f)\<close> split the values into four classes.
  A finite value carries the text that \<^verbatim>\<open>fmt\<close> prints for it.
\<close>

datatype Float = NegInf | PosInf | NaN | Finite string

text \<open>
  Modelled from the spec: \<^verbatim>\<open>protoreflect.Value\<close> is not among the sources. A value is a
  tagged union; the typed accessors \<^verbatim>\<open>Bool\<close>, \<^verbatim>\<open>Bytes\<close>, \<^verbatim>\<open>Float\<close> and \<^verbatim>\<open>Enum\<close>
  (here \<open>EnumNumber\<close>) panic on a
  value of another type (\<open>None\<close>), \<^verbatim>\<open>String\<close> formats any value, and \<^verbatim>\<open>Interface\<close>
  followed by \<^verbatim>\<open>fmt.Sprint\<close> gives the natural text of the value.
\<close>

datatype Value =
    VBool bool | VInt int | VFloat Float | VString string | VBytes string | VEnum int

record GoIdent =
  GoName :: string
  GoImportPath :: string

text \<open>
  The parent chain of a descriptor, as \<^verbatim>\<open>enumRegistryName\<close> walks it: the chain ends
  in the file descriptor, which has no parent and carries the proto package.
\<close>

datatype Descriptor = FileDescriptor (Package: string) | Nested (Parent: Descriptor)

record EnumValue =
  v_GoIdent :: GoIdent
  v_Name :: string
  v_Number :: int

record Enum =
  e_GoIdent :: GoIdent
  e_Desc :: Descriptor
  e_Values :: "EnumValue list"

record Oneof =
  o_GoName :: string

record FieldDesc =
  Name :: string
  FullName :: string
  Number :: int
  Kind :: Kind
  Cardinality :: Cardinality
  Syntax :: Syntax
  IsPacked :: bool
  JSONName :: string
  HasDefault :: bool
  Default :: Value

record MessageDesc =
  md_Name :: string
  md_FullName :: string
  md_IsMapEntry :: bool
  md_MessageSetWireFormat :: bool

text \<open>
  \<^verbatim>\<open>protogen.Extension\<close> is the same Go type as \<^verbatim>\<open>protogen.Field\<close>.
  \<^verbatim>\<open>protogen\<close> sets \<^verbatim>\<open>Field.OneofType\<close> exactly when \<^verbatim>\<open>Desc.OneofType()\<close> is not
  nil, so one attribute stands for both tests.
\<close>

datatype Field = Field
    (f_Desc: FieldDesc)
    (f_GoName: string)
    (f_ParentMessage: "Message option")
    (f_ExtendedType: "Message option")
    (f_MessageType: "Message option")
    (f_EnumType: "Enum option")
    (f_OneofType: "Oneof option")
    (f_Deprecated: bool)
and Message = Message
    (m_Desc: MessageDesc)
    (m_GoIdent: GoIdent)
    (m_Fields: "Field list")
    (m_Messages: "Message list")
    (m_Enums: "Enum list")
    (m_Extensions: "Field list")

text \<open>
  Modelled from the spec: \<^verbatim>\<open>FieldDescriptor.IsMap\<close> is not among the sources. A field
  is a map field iff its message type is a map-entry message.
\<close>

definition IsMap :: "Field \<Rightarrow> bool" where
  "IsMap field =
     (case f_MessageType field of None \<Rightarrow> False | Some m \<Rightarrow> md_IsMapEntry (m_Desc m))"

section \<open>Library functions the generator calls\<close>

text \<open>\<^verbatim>\<open>strings.Join\<close>.\<close>

fun Join :: "string list \<Rightarrow> string \<Rightarrow> string" where
  "Join [] sep = []"
| "Join [x] sep = x"
| "Join (x # y # ys) sep = x @ sep @ Join (y # ys) sep"

text \<open>\<^verbatim>\<open>strconv.Itoa\<close>, also the decimal text \<^verbatim>\<open>fmt\<close> prints for an integer.\<close>

fun digits :: "nat \<Rightarrow> string" where
  "digits n =
     (if n < 10 then [''0123456789'' ! n]
      else digits (n div 10) @ [''0123456789'' ! (n mod 10)])"

declare digits.simps [simp del]

definition Itoa :: "int \<Rightarrow> string" where
  "Itoa i = (if i < 0 then ''-'' @ digits (nat (- i)) else digits (nat i))"

definition Bool :: "Value \<Rightarrow> bool option" where
  "Bool v = (case v of VBool b \<Rightarrow> Some b | _ \<Rightarrow> None)"

definition Bytes :: "Value \<Rightarrow> string option" where
  "Bytes v = (case v of VBytes b \<Rightarrow> Some b | _ \<Rightarrow> None)"

definition Float :: "Value \<Rightarrow> Float option" where
  "Float v = (case v of VFloat f \<Rightarrow> Some f | _ \<Rightarrow> None)"

definition EnumNumber :: "Value \<Rightarrow> int option" where
  "EnumNumber v = (case v of VEnum n \<Rightarrow> Some n | _ \<Rightarrow> None)"

text \<open>\<^verbatim>\<open>fmt.Sprint(v.Interface())\<close>, which is also what \<^verbatim>\<open>g.P\<close> prints for the value.\<close>

definition Sprint :: "Value \<Rightarrow> string" where
  "Sprint v =
     (case v of
        VBool b \<Rightarrow> (if b then ''true'' else ''false'')
      | VInt i \<Rightarrow> Itoa i
      | VFloat NegInf \<Rightarrow> ''-Inf''
      | VFloat PosInf \<Rightarrow> ''+Inf''
      | VFloat NaN \<Rightarrow> ''NaN''
      | VFloat (Finite s) \<Rightarrow> s
      | VString s \<Rightarrow> s
      | VBytes b \<Rightarrow> ''['' @ Join (map (\<lambda>c. Itoa (of_char c)) b) '' '' @ '']''
      | VEnum n \<Rightarrow> Itoa n)"

definition String :: "Value \<Rightarrow> string" where
  "String v = (case v of VString s \<Rightarrow> s | _ \<Rightarrow> Sprint v)"

text \<open>
  The generated file \<^verbatim>\<open>g\<close>: the lines printed so far, and how it writes a Go
  identifier (\<^verbatim>\<open>g.QualifiedGoIdent\<close>, which depends on the import path of the file
  being generated and is not among the sources). \<^verbatim>\<open>strconv.Quote\<close> is carried with it.
\<close>

record GeneratedFile =
  QualifiedGoIdent :: "GoIdent \<Rightarrow> string"
  Quote :: "string \<Rightarrow> string"
  buf :: "string list"

text \<open>\<^verbatim>\<open>g.P(v...)\<close> prints its arguments one after the other and ends the line.\<close>

definition P :: "string list \<Rightarrow> GeneratedFile \<Rightarrow> GeneratedFile" where
  "P v g = g\<lparr>buf := buf g @ [concat v]\<rparr>"

section \<open>The generator\<close>

subsection \<open>enumRegistryName\<close>

fun fileOf :: "Descriptor \<Rightarrow> Descriptor" where
  "fileOf (FileDescriptor p) = FileDescriptor p"
| "fileOf (Nested d) = fileOf d"

definition enumRegistryName :: "Enum \<Rightarrow> string" where
  "enumRegistryName enum = Package (fileOf (e_Desc enum)) @ ''.'' @ GoName (e_GoIdent enum)"

subsection \<open>fieldHasDefault\<close>

definition fieldHasDefault :: "Field \<Rightarrow> bool option" where
  "fieldHasDefault field =
     (if \<not> HasDefault (f_Desc field) then Some False
      else case Kind (f_Desc field) of
             StringKind \<Rightarrow> Some (String (Default (f_Desc field)) \<noteq> '''')
           | BytesKind \<Rightarrow> do { b \<leftarrow> Bytes (Default (f_Desc field)); Some (length b > 0) }
           | _ \<Rightarrow> Some True)"

subsection \<open>fieldGoType\<close>

lemma size_map_entry_field:
  "f_MessageType field = Some m \<Longrightarrow> x \<in> set (m_Fields m) \<Longrightarrow> size x < size field"
  by (cases field; cases m)
     (auto simp: less_Suc_eq_le dest!: size_list_estimation'[where f = size and y = "size x"])

text \<open>
  The switch over the kind either returns at once (a map field, \<open>Inl\<close>) or falls
  through to the checks of the cardinality and the syntax (\<open>Inr\<close>). A nil
  \<^verbatim>\<open>EnumType\<close> or \<^verbatim>\<open>MessageType\<close>, or a map entry with fewer than two fields,
  panics (\<open>None\<close>).
\<close>

function fieldGoType :: "GeneratedFile \<Rightarrow> Field \<Rightarrow> (string \<times> bool) option" where
  "fieldGoType g field =
     (let k = Kind (f_Desc field) in
      case
        (if k = BoolKind then Some (Inr (''bool'', True))
         else if k = EnumKind then
           (case f_EnumType field of
              None \<Rightarrow> None
            | Some e \<Rightarrow> Some (Inr (QualifiedGoIdent g (e_GoIdent e), True)))
         else if k \<in> {Int32Kind, Sint32Kind, Sfixed32Kind} then Some (Inr (''int32'', True))
         else if k \<in> {Uint32Kind, Fixed32Kind} then Some (Inr (''uint32'', True))
         else if k \<in> {Int64Kind, Sint64Kind, Sfixed64Kind} then Some (Inr (''int64'', True))
         else if k \<in> {Uint64Kind, Fixed64Kind} then Some (Inr (''uint64'', True))
         else if k = FloatKind then Some (Inr (''float32'', True))
         else if k = DoubleKind then Some (Inr (''float64'', True))
         else if k = StringKind then Some (Inr (''string'', True))
         else if k = BytesKind then Some (Inr (''[]byte'', False))
         else if IsMap field then
           (case f_MessageType field of
              None \<Rightarrow> None
            | Some m \<Rightarrow>
                (case m_Fields m of
                   key # val # _ \<Rightarrow>
                     do {
                       (keyType, _) \<leftarrow> fieldGoType g key;
                       (valType, _) \<leftarrow> fieldGoType g val;
                       Some (Inl (''map['' @ keyType @ '']'' @ valType, False))
                     }
                 | _ \<Rightarrow> None))
         else
           (case f_MessageType field of
              None \<Rightarrow> None
            | Some m \<Rightarrow> Some (Inr (''*'' @ QualifiedGoIdent g (m_GoIdent m), False))))
      of
        None \<Rightarrow> None
      | Some (Inl r) \<Rightarrow> Some r
      | Some (Inr (goType, pointer)) \<Rightarrow>
          (let (goType, pointer) =
                 (if Cardinality (f_Desc field) = Repeated then (''[]'' @ goType, False)
                  else (goType, pointer));
               pointer = (if Syntax (f_Desc field) = Proto3 then False else pointer)
           in Some (goType, pointer)))"
  by pat_completeness auto
termination
  by (relation "measure (\<lambda>(g, field). size field)")
     (auto intro: size_map_entry_field)

declare fieldGoType.simps [simp del]

subsection \<open>wireTypes and fieldProtobufTag\<close>

fun wireTypes :: "Kind \<Rightarrow> string" where
  "wireTypes BoolKind = ''varint''"
| "wireTypes EnumKind = ''varint''"
| "wireTypes Int32Kind = ''varint''"
| "wireTypes Sint32Kind = ''zigzag32''"
| "wireTypes Uint32Kind = ''varint''"
| "wireTypes Int64Kind = ''varint''"
| "wireTypes Sint64Kind = ''zigzag64''"
| "wireTypes Uint64Kind = ''varint''"
| "wireTypes Sfixed32Kind = ''fixed32''"
| "wireTypes Fixed32Kind = ''fixed32''"
| "wireTypes FloatKind = ''fixed32''"
| "wireTypes Sfixed64Kind = ''fixed64''"
| "wireTypes Fixed64Kind = ''fixed64''"
| "wireTypes DoubleKind = ''fixed64''"
| "wireTypes StringKind = ''bytes''"
| "wireTypes BytesKind = ''bytes''"
| "wireTypes MessageKind = ''bytes''"
| "wireTypes GroupKind = ''group''"

text \<open>
  The encoded default of the tag. A default whose value is not of the type its kind
  reads panics (\<open>None\<close>).
\<close>

definition tagDefault :: "FieldDesc \<Rightarrow> string option" where
  "tagDefault d =
     (let k = Kind d in
      if k = BoolKind then
        do { b \<leftarrow> Bool (Default d); Some (if b then ''1'' else ''0'') }
      else if k = BytesKind then Bytes (Default d)
      else if k = FloatKind \<or> k = DoubleKind then
        do {
          f \<leftarrow> Float (Default d);
          Some (case f of
                  NegInf \<Rightarrow> ''-inf''
                | PosInf \<Rightarrow> ''inf''
                | NaN \<Rightarrow> ''nan''
                | Finite _ \<Rightarrow> Sprint (Default d))
        }
      else Some (Sprint (Default d)))"

text \<open>
  The tag is built by appending to a slice, then joined. A group field with a nil
  \<^verbatim>\<open>MessageType\<close> and an enum field with a nil \<^verbatim>\<open>EnumType\<close> panic (\<open>None\<close>).
\<close>

definition fieldProtobufTag :: "Field \<Rightarrow> string option" where
  "fieldProtobufTag field =
     (let d = f_Desc field;
          tag = [];
          tag = tag @ [wireTypes (Kind d)];
          tag = tag @ [Itoa (Number d)];
          tag = (case Cardinality d of
                   Optional \<Rightarrow> tag @ [''opt'']
                 | Required \<Rightarrow> tag @ [''req'']
                 | Repeated \<Rightarrow> tag @ [''rep'']);
          tag = (if IsPacked d then tag @ [''packed''] else tag)
      in do {
        name \<leftarrow> (if Kind d = GroupKind
                  then map_option (\<lambda>m. md_Name (m_Desc m)) (f_MessageType field)
                  else Some (Name d));
        tag \<leftarrow> Some (tag @ [''name='' @ name]);
        tag \<leftarrow> Some (if JSONName d \<noteq> [] \<and> JSONName d \<noteq> name
                      then tag @ [''json='' @ JSONName d] else tag);
        tag \<leftarrow> Some (if Syntax d = Proto3 then tag @ [''proto3''] else tag);
        tag \<leftarrow> (if Kind d = EnumKind
                 then map_option (\<lambda>e. tag @ [''enum='' @ enumRegistryName e]) (f_EnumType field)
                 else Some tag);
        tag \<leftarrow> Some (if f_OneofType field \<noteq> None then tag @ [''oneof''] else tag);
        tag \<leftarrow> (if HasDefault d
                 then do { def \<leftarrow> tagDefault d; Some (tag @ [''def='' @ def]) }
                 else Some tag);
        Some (Join tag '','')
      })"

subsection \<open>fieldDefaultValue\<close>

text \<open>
  The Go expression a getter returns when the field is unset. An enum field with a nil
  \<^verbatim>\<open>EnumType\<close> or an enum without values panics (\<open>None\<close>).
\<close>

definition fieldDefaultValue :: "GeneratedFile \<Rightarrow> Message \<Rightarrow> Field \<Rightarrow> string option" where
  "fieldDefaultValue g message field =
     (if Cardinality (f_Desc field) = Repeated then Some ''nil''
      else do {
        hasDefault \<leftarrow> fieldHasDefault field;
        if hasDefault then
          (let defVarName = ''Default_'' @ GoName (m_GoIdent message) @ ''_'' @ f_GoName field in
           if Kind (f_Desc field) = BytesKind
           then Some (''append([]byte(nil), '' @ defVarName @ ''...)'')
           else Some defVarName)
        else
          (case Kind (f_Desc field) of
             BoolKind \<Rightarrow> Some ''false''
           | StringKind \<Rightarrow> Some [CHR 0x22, CHR 0x22]
           | MessageKind \<Rightarrow> Some ''nil''
           | GroupKind \<Rightarrow> Some ''nil''
           | BytesKind \<Rightarrow> Some ''nil''
           | EnumKind \<Rightarrow>
               (case f_EnumType field of
                  None \<Rightarrow> None
                | Some e \<Rightarrow>
                    (case e_Values e of
                       [] \<Rightarrow> None
                     | v # _ \<Rightarrow> Some (QualifiedGoIdent g (v_GoIdent v))))
           | _ \<Rightarrow> Some ''0'')
      })"

subsection \<open>genMessage: the holders of the default values\<close>

text \<open>
  One round of the loop of \<^verbatim>\<open>genMessage\<close> that emits the constants and variables
  holding the default values. \<^verbatim>\<open>ByNumber\<close> gives the first declared value with the
  number, and nil (then a panic) when there is none.
\<close>

definition funcCall :: "GeneratedFile \<Rightarrow> string \<Rightarrow> string \<Rightarrow> string \<Rightarrow> string" where
  "funcCall g goType fn param =
     (let s = QualifiedGoIdent g \<lparr>GoName = fn, GoImportPath = ''math''\<rparr> @ param in
      if goType \<noteq> ''float64'' then goType @ ''('' @ s @ '')'' else s)"

definition genDefault :: "Message \<Rightarrow> Field \<Rightarrow> GeneratedFile \<Rightarrow> GeneratedFile option" where
  "genDefault message field g =
     do {
       hasDefault \<leftarrow> fieldHasDefault field;
       if \<not> hasDefault then Some g
       else
         (let defVarName = ''Default_'' @ GoName (m_GoIdent message) @ ''_'' @ f_GoName field;
              def = Default (f_Desc field);
              k = Kind (f_Desc field)
          in
          if k = StringKind then
            Some (P [''const '', defVarName, '' string = '', Quote g (String def)] g)
          else if k = BytesKind then
            do {
              b \<leftarrow> Bytes def;
              Some (P [''var '', defVarName, '' []byte = []byte('', Quote g b, '')''] g)
            }
          else if k = EnumKind then
            (case f_EnumType field of
               None \<Rightarrow> None
             | Some enum \<Rightarrow>
                 do {
                   n \<leftarrow> EnumNumber def;
                   evalue \<leftarrow> find (\<lambda>v. v_Number v = n) (e_Values enum);
                   Some (P [''const '', defVarName, '' '', QualifiedGoIdent g (e_GoIdent enum),
                            '' = '', QualifiedGoIdent g (v_GoIdent evalue)] g)
                 })
          else if k = FloatKind \<or> k = DoubleKind then
            do {
              f \<leftarrow> Float def;
              let goType = (if k = FloatKind then ''float32'' else ''float64'') in
              Some (case f of
                      NegInf \<Rightarrow>
                        P [''var '', defVarName, '' '', goType, '' = '',
                           funcCall g goType ''Inf'' ''(-1)''] g
                    | PosInf \<Rightarrow>
                        P [''var '', defVarName, '' '', goType, '' = '',
                           funcCall g goType ''Inf'' ''(1)''] g
                    | NaN \<Rightarrow>
                        P [''var '', defVarName, '' '', goType, '' = '',
                           funcCall g goType ''NaN'' ''()''] g
                    | Finite _ \<Rightarrow>
                        P [''const '', defVarName, '' '', goType, '' = '', Sprint def] g)
            }
          else
            do {
              (goType, _) \<leftarrow> fieldGoType g field;
              Some (P [''const '', defVarName, '' '', goType, '' = '', Sprint def] g)
            })
     }"

fun genDefaults :: "Message \<Rightarrow> Field list \<Rightarrow> GeneratedFile \<Rightarrow> GeneratedFile option" where
  "genDefaults message [] g = Some g"
| "genDefaults message (field # rest) g =
     do { g \<leftarrow> genDefault message field g; genDefaults message rest g }"

subsection \<open>genMessage: the getters\<close>



subsection \<open>genEnum: the tables of names and numbers\<close>

text \<open>
  The loop over the values that prints the entries of the table from numbers to names;
  \<open>generated\<close> is the Go map of the numbers printed so far.
\<close>

fun genEnumNames ::
  "EnumValue list \<Rightarrow> (int \<rightharpoonup> bool) \<Rightarrow> GeneratedFile \<Rightarrow> GeneratedFile" where
  "genEnumNames [] generated g = g"
| "genEnumNames (value # values) generated g =
     (let duplicate = (if generated (v_Number value) \<noteq> None then ''// Duplicate value: '' else []);
          g = P [duplicate, Itoa (v_Number value), '': '', Quote g (v_Name value), '',''] g;
          generated = generated(v_Number value \<mapsto> True)
      in genEnumNames values generated g)"

fun genEnumNumbers :: "EnumValue list \<Rightarrow> GeneratedFile \<Rightarrow> GeneratedFile" where
  "genEnumNumbers [] g = g"
| "genEnumNumbers (value # values) g =
     genEnumNumbers values (P [Quote g (v_Name value), '': '', Itoa (v_Number value), '',''] g)"

text \<open>The two tables of \<^verbatim>\<open>genEnum\<close>, from the name of the first to the end of the second.\<close>

definition genEnumTables :: "Enum \<Rightarrow> GeneratedFile \<Rightarrow> GeneratedFile" where
  "genEnumTables enum g =
     (let nameMap = GoName (e_GoIdent enum) @ ''_name'';
          g = P [''var '', nameMap, '' = map[int32]string{''] g;
          g = genEnumNames (e_Values enum) Map.empty g;
          g = P [''}''] g;
          g = P [] g;
          valueMap = GoName (e_GoIdent enum) @ ''_value'';
          g = P [''var '', valueMap, '' = map[string]int32{''] g;
          g = genEnumNumbers (e_Values enum) g;
          g = P [''}''] g
      in P [] g)"

subsection \<open>GenerateFile: the lists of all entities\<close>

text \<open>
  The descriptor of the file as \<^verbatim>\<open>genFileDescriptor\<close> reads it: the source code
  information, which it drops, and everything else.
\<close>

record FileDescriptorProto =
  fdp_Body :: string
  fdp_SourceCodeInfo :: "string option"

record File =
  file_Path :: string
  file_GoImportPath :: string
  file_Proto :: FileDescriptorProto
  file_Enums :: "Enum list"
  file_Messages :: "Message list"
  file_Extensions :: "Field list"

record fileInfo = File +
  descriptorVar :: string
  allEnums :: "Enum list"
  allMessages :: "Message list"
  allExtensions :: "Field list"

lemma size_nested_messages: "size_list size (m_Messages m) \<le> size m"
  by (cases m) simp




subsection \<open>genRegisterExtension and genInitFunction\<close>

definition protoPackage :: string where
  "protoPackage = ''github.com/golang/protobuf/proto''"

text \<open>
  Modelled from the spec: \<^verbatim>\<open>FullName.Parent\<close> is not among the sources. It is the
  name without its last component, and empty when the name has no dot.
\<close>

definition FullName_Parent :: "string \<Rightarrow> string" where
  "FullName_Parent n =
     (if CHR ''.'' \<in> set n then rev (tl (dropWhile (\<lambda>c. c \<noteq> CHR ''.'') (rev n))) else [])"

text \<open>
  The message options of a nil \<^verbatim>\<open>ExtendedType\<close> cannot be read (\<open>None\<close>); the
  conjunction stops at the first false operand.
\<close>

definition isExtensionMessageSetElement :: "Field \<Rightarrow> bool option" where
  "isExtensionMessageSetElement extension =
     (if f_ParentMessage extension = None then Some False
      else case f_ExtendedType extension of
             None \<Rightarrow> None
           | Some t \<Rightarrow>
               Some (md_MessageSetWireFormat (m_Desc t) \<and>
                     Name (f_Desc extension) = ''message_set_extension''))"

definition extensionVar :: "fileInfo \<Rightarrow> Field \<Rightarrow> GoIdent" where
  "extensionVar f extension =
     (let name = ''E_'';
          name = (case f_ParentMessage extension of
                    Some parent \<Rightarrow> name @ GoName (m_GoIdent parent) @ ''_''
                  | None \<Rightarrow> name);
          name = name @ f_GoName extension
      in \<lparr>GoName = name, GoImportPath = file_GoImportPath f\<rparr>)"





text \<open>
  The name \<^verbatim>\<open>sort.Slice\<close> compares: the full name of the message type of a map field
  (a map field has a message type).
\<close>

definition mapTypeName :: "Field \<Rightarrow> string" where
  "mapTypeName field =
     (case f_MessageType field of Some m \<Rightarrow> md_FullName (m_Desc m) | None \<Rightarrow> [])"




subsection \<open>genFileDescriptor\<close>

type_synonym byte = "8 word"







section \<open>Well-formed models\<close>

text \<open>
  The default of a field, when it declares one, is a value of the type of its kind.
\<close>

definition typedDefault :: "FieldDesc \<Rightarrow> bool" where
  "typedDefault d =
     (HasDefault d \<longrightarrow>
        (case Default d of
           VBool _ \<Rightarrow> Kind d = BoolKind
         | VInt _ \<Rightarrow> Kind d \<in> {Int32Kind, Sint32Kind, Uint32Kind, Int64Kind, Sint64Kind,
                                Uint64Kind, Sfixed32Kind, Fixed32Kind, Sfixed64Kind, Fixed64Kind}
         | VFloat _ \<Rightarrow> Kind d \<in> {FloatKind, DoubleKind}
         | VString _ \<Rightarrow> Kind d = StringKind
         | VBytes _ \<Rightarrow> Kind d = BytesKind
         | VEnum _ \<Rightarrow> Kind d = EnumKind))"

text \<open>
  The types a field refers to are there: an enum field has its enum, a message or group
  field its message, and a map entry its key and value fields, which are well-formed in
  turn.
\<close>

function wfType :: "Field \<Rightarrow> bool" where
  "wfType field =
     (let k = Kind (f_Desc field) in
      if k = EnumKind then f_EnumType field \<noteq> None
      else if k = MessageKind \<or> k = GroupKind then
        (case f_MessageType field of
           None \<Rightarrow> False
         | Some m \<Rightarrow>
             if md_IsMapEntry (m_Desc m)
             then (case m_Fields m of key # val # _ \<Rightarrow> wfType key \<and> wfType val | _ \<Rightarrow> False)
             else True)
      else True)"
  by pat_completeness auto
termination
  by (relation "measure size") (auto intro: size_map_entry_field)

declare wfType.simps [simp del]

text \<open>
  A default that counts: declared, and not an empty string or an empty bytes value.
\<close>

definition nontrivialDefault :: "FieldDesc \<Rightarrow> bool" where
  "nontrivialDefault d =
     (HasDefault d \<and>
      (Kind d \<notin> {StringKind, BytesKind} \<or> Default d \<notin> {VString [], VBytes []}))"


text \<open>What \<^verbatim>\<open>fieldProtobufTag\<close> reads is there.\<close>

definition wfTag :: "Field \<Rightarrow> bool" where
  "wfTag field =
     ((Kind (f_Desc field) = GroupKind \<longrightarrow> f_MessageType field \<noteq> None) \<and>
      (Kind (f_Desc field) = EnumKind \<longrightarrow> f_EnumType field \<noteq> None) \<and>
      typedDefault (f_Desc field))"





section \<open>The output as the specification describes it\<close>




text \<open>
  The name on the wire: the declared name of the field, and for a group the name of its
  message type.
\<close>

definition wireName :: "Field \<Rightarrow> string" where
  "wireName field =
     (if Kind (f_Desc field) = GroupKind
      then (case f_MessageType field of Some m \<Rightarrow> md_Name (m_Desc m) | None \<Rightarrow> [])
      else Name (f_Desc field))"

definition cardinalityToken :: "Cardinality \<Rightarrow> string" where
  "cardinalityToken c =
     (case c of Optional \<Rightarrow> ''opt'' | Required \<Rightarrow> ''req'' | Repeated \<Rightarrow> ''rep'')"

text \<open>
  The tokens of a tag in the order of the specification; \<open>json\<close> says whether the
  token of the JSON name is among them.
\<close>

definition tagTokens :: "bool \<Rightarrow> Field \<Rightarrow> string list" where
  "tagTokens json field =
     (let d = f_Desc field in
      [wireTypes (Kind d), Itoa (Number d), cardinalityToken (Cardinality d)]
      @ (if IsPacked d then [''packed''] else [])
      @ [''name='' @ wireName field]
      @ (if json then [''json='' @ JSONName d] else [])
      @ (if Syntax d = Proto3 then [''proto3''] else [])
      @ (if Kind d = EnumKind
         then [''enum='' @ (case f_EnumType field of Some e \<Rightarrow> enumRegistryName e | None \<Rightarrow> [])]
         else [])
      @ (if f_OneofType field \<noteq> None then [''oneof''] else [])
      @ (if HasDefault d
         then [''def='' @ (case tagDefault d of Some def \<Rightarrow> def | None \<Rightarrow> [])]
         else []))"

text \<open>
  The tag as the specification states it: the token of the JSON name is there iff the
  JSON name differs from the name on the wire.
\<close>

definition claimedTag :: "Field \<Rightarrow> string" where
  "claimedTag field =
     Join (tagTokens (JSONName (f_Desc field) \<noteq> wireName field) field) '',''"

text \<open>
  The entry of the value at position \<open>i\<close> in the table from numbers to names: it is
  marked when an earlier value has the same number.
\<close>

definition nameEntry :: "GeneratedFile \<Rightarrow> EnumValue list \<Rightarrow> nat \<Rightarrow> string" where
  "nameEntry g vs i =
     (if v_Number (vs ! i) \<in> v_Number ` set (take i vs) then ''// Duplicate value: '' else [])
     @ Itoa (v_Number (vs ! i)) @ '': '' @ Quote g (v_Name (vs ! i)) @ '',''"

definition numberEntry :: "GeneratedFile \<Rightarrow> EnumValue \<Rightarrow> string" where
  "numberEntry g v = Quote g (v_Name v) @ '': '' @ Itoa (v_Number v) @ '',''"

text \<open>
  The messages of a file in the order of their declaration: each message, then the
  messages nested in it, then the messages declared after it.
\<close>

function declarationOrder :: "Message list \<Rightarrow> Message list" where
  "declarationOrder [] = []"
| "declarationOrder (m # ms) = m # declarationOrder (m_Messages m) @ declarationOrder ms"
  by pat_completeness auto
termination
  by (relation "measure (size_list size)")
     (auto simp: less_Suc_eq_le intro!: trans_le_add1 size_nested_messages)

text \<open>The lines of the initialization block, one entity at a time.\<close>

definition registerEnumLine :: "GeneratedFile \<Rightarrow> Enum \<Rightarrow> string" where
  "registerEnumLine g enum =
     QualifiedGoIdent g \<lparr>GoName = ''RegisterEnum'', GoImportPath = protoPackage\<rparr>
     @ ''('' @ Quote g (enumRegistryName enum) @ '', '' @ GoName (e_GoIdent enum) @ ''_name, ''
     @ GoName (e_GoIdent enum) @ ''_value)''"

text \<open>
  An extension is registered by one line, followed by the line of its message set type
  when it is an element of a message set.
\<close>

definition registerExtensionLines :: "GeneratedFile \<Rightarrow> fileInfo \<Rightarrow> Field \<Rightarrow> string list" where
  "registerExtensionLines g f extension =
     [QualifiedGoIdent g \<lparr>GoName = ''RegisterExtension'', GoImportPath = protoPackage\<rparr>
      @ ''('' @ QualifiedGoIdent g (extensionVar f extension) @ '')'']
     @ (if isExtensionMessageSetElement extension = Some True
        then [QualifiedGoIdent g
                \<lparr>GoName = ''RegisterMessageSetType'', GoImportPath = protoPackage\<rparr>
              @ ''(('' @ (case fieldGoType g extension of
                           Some (goType, pointer) \<Rightarrow> (if pointer then ''*'' else []) @ goType
                         | None \<Rightarrow> [])
              @ '')(nil), '' @ Itoa (Number (f_Desc extension)) @ '',''
              @ Quote g (FullName_Parent (FullName (f_Desc extension))) @ '')'']
        else [])"

definition registerTypeLine :: "GeneratedFile \<Rightarrow> Message \<Rightarrow> string" where
  "registerTypeLine g message =
     QualifiedGoIdent g \<lparr>GoName = ''RegisterType'', GoImportPath = protoPackage\<rparr>
     @ ''((*'' @ GoName (m_GoIdent message) @ '')(nil), ''
     @ Quote g (md_FullName (m_Desc message)) @ '')''"

definition registerMapTypeLine :: "GeneratedFile \<Rightarrow> Field \<Rightarrow> string" where
  "registerMapTypeLine g field =
     QualifiedGoIdent g \<lparr>GoName = ''RegisterMapType'', GoImportPath = protoPackage\<rparr>
     @ ''(('' @ (case fieldGoType g field of Some (goType, _) \<Rightarrow> goType | None \<Rightarrow> [])
     @ '')(nil), '' @ Quote g (mapTypeName field) @ '')''"

text \<open>The map fields of a message, sorted by the full name of their map entry.\<close>

definition sortedMapFields :: "Message \<Rightarrow> Field list" where
  "sortedMapFields message = sort_key mapTypeName (filter IsMap (m_Fields message))"

text \<open>
  A message is registered by the lines of its nested extensions, then its own line, then
  the lines of the types of its map fields.
\<close>

definition registerMessageLines :: "GeneratedFile \<Rightarrow> fileInfo \<Rightarrow> Message \<Rightarrow> string list" where
  "registerMessageLines g f message =
     concat (map (registerExtensionLines g f) (m_Extensions message))
     @ [registerTypeLine g message]
     @ map (registerMapTypeLine g) (sortedMapFields message)"

section \<open>Example models\<close>

definition quoted :: "string \<Rightarrow> string" where
  "quoted s = [CHR 0x22] @ s @ [CHR 0x22]"

text \<open>
  A generated file of the Go package \<^verbatim>\<open>example.com/pkg\<close>: it writes an identifier of
  its own package by its name alone and one of another package after the name of that
  package, and it quotes a string without special characters.
\<close>

definition ex_g :: GeneratedFile where
  "ex_g =
     \<lparr>QualifiedGoIdent =
        (\<lambda>ident. if GoImportPath ident = ''example.com/pkg'' then GoName ident
                  else if GoImportPath ident = ''math'' then ''math.'' @ GoName ident
                  else ''proto.'' @ GoName ident),
      Quote = quoted,
      buf = []\<rparr>"

definition ex_Msg :: Message where
  "ex_Msg = Message
     \<lparr>md_Name = ''Msg'', md_FullName = ''pkg.Msg'', md_IsMapEntry = False,
      md_MessageSetWireFormat = False\<rparr>
     \<lparr>GoName = ''Msg'', GoImportPath = ''example.com/pkg''\<rparr> [] [] [] []"

text \<open>\<^verbatim>\<open>int32 id = 1;\<close> of a proto3 message.\<close>

definition ex_id :: Field where
  "ex_id = Field
     \<lparr>Name = ''id'', FullName = ''pkg.Msg.id'', Number = 1, Kind = Int32Kind,
      Cardinality = Optional, Syntax = Proto3, IsPacked = False, JSONName = ''id'',
      HasDefault = False, Default = VInt 0\<rparr>
     ''Id'' None None None None None False"

text \<open>\<^verbatim>\<open>optional string name = 2 [default = "x"];\<close> of a proto2 message.\<close>

definition ex_name :: Field where
  "ex_name = Field
     \<lparr>Name = ''name'', FullName = ''pkg.Msg.name'', Number = 2, Kind = StringKind,
      Cardinality = Optional, Syntax = Proto2, IsPacked = False, JSONName = ''name'',
      HasDefault = True, Default = VString ''x''\<rparr>
     ''Name'' None None None None None False"

text \<open>\<^verbatim>\<open>optional string note = 3 [default = ""];\<close> of a proto2 message.\<close>

definition ex_note :: Field where
  "ex_note = Field
     \<lparr>Name = ''note'', FullName = ''pkg.Msg.note'', Number = 3, Kind = StringKind,
      Cardinality = Optional, Syntax = Proto2, IsPacked = False, JSONName = ''note'',
      HasDefault = True, Default = VString []\<rparr>
     ''Note'' None None None None None False"

text \<open>\<^verbatim>\<open>map<string, int32> tags = 5;\<close> of a proto3 message, with its map entry.\<close>

definition ex_key :: Field where
  "ex_key = Field
     \<lparr>Name = ''key'', FullName = ''pkg.Msg.TagsEntry.key'', Number = 1, Kind = StringKind,
      Cardinality = Optional, Syntax = Proto3, IsPacked = False, JSONName = ''key'',
      HasDefault = False, Default = VString []\<rparr>
     ''Key'' None None None None None False"

definition ex_value :: Field where
  "ex_value = Field
     \<lparr>Name = ''value'', FullName = ''pkg.Msg.TagsEntry.value'', Number = 2, Kind = Int32Kind,
      Cardinality = Optional, Syntax = Proto3, IsPacked = False, JSONName = ''value'',
      HasDefault = False, Default = VInt 0\<rparr>
     ''Value'' None None None None None False"

definition ex_TagsEntry :: Message where
  "ex_TagsEntry = Message
     \<lparr>md_Name = ''TagsEntry'', md_FullName = ''pkg.Msg.TagsEntry'', md_IsMapEntry = True,
      md_MessageSetWireFormat = False\<rparr>
     \<lparr>GoName = ''Msg_TagsEntry'', GoImportPath = ''example.com/pkg''\<rparr>
     [ex_key, ex_value] [] [] []"

definition ex_tags :: Field where
  "ex_tags = Field
     \<lparr>Name = ''tags'', FullName = ''pkg.Msg.tags'', Number = 5, Kind = MessageKind,
      Cardinality = Repeated, Syntax = Proto3, IsPacked = False, JSONName = ''tags'',
      HasDefault = False, Default = VInt 0\<rparr>
     ''Tags'' None None (Some ex_TagsEntry) None None False"


text \<open>An extension \<^verbatim>\<open>optional int32 ext = 100;\<close>; an extension has no JSON name.\<close>

definition ex_ext :: Field where
  "ex_ext = Field
     \<lparr>Name = ''ext'', FullName = ''pkg.ext'', Number = 100, Kind = Int32Kind,
      Cardinality = Optional, Syntax = Proto2, IsPacked = False, JSONName = [],
      HasDefault = False, Default = VInt 0\<rparr>
     ''Ext'' None (Some ex_Msg) None None None False"

text \<open>\<^verbatim>\<open>enum Level { HIGH = 2; LOW = 0; }\<close> and a proto2 field of it without default.\<close>

definition ex_Level :: Enum where
  "ex_Level =
     \<lparr>e_GoIdent = \<lparr>GoName = ''Level'', GoImportPath = ''example.com/pkg''\<rparr>,
      e_Desc = Nested (FileDescriptor ''pkg''),
      e_Values =
        [\<lparr>v_GoIdent = \<lparr>GoName = ''Level_HIGH'', GoImportPath = ''example.com/pkg''\<rparr>,
          v_Name = ''HIGH'', v_Number = 2\<rparr>,
         \<lparr>v_GoIdent = \<lparr>GoName = ''Level_LOW'', GoImportPath = ''example.com/pkg''\<rparr>,
          v_Name = ''LOW'', v_Number = 0\<rparr>]\<rparr>"

definition ex_level :: Field where
  "ex_level = Field
     \<lparr>Name = ''level'', FullName = ''pkg.Msg.level'', Number = 4, Kind = EnumKind,
      Cardinality = Optional, Syntax = Proto2, IsPacked = False, JSONName = ''level'',
      HasDefault = False, Default = VEnum 2\<rparr>
     ''Level'' None None None (Some ex_Level) None False"

text \<open>\<^verbatim>\<open>optional bytes blob = 6 [default = "ab"];\<close> of a proto2 message.\<close>

definition ex_blob :: Field where
  "ex_blob = Field
     \<lparr>Name = ''blob'', FullName = ''pkg.Msg.blob'', Number = 6, Kind = BytesKind,
      Cardinality = Optional, Syntax = Proto2, IsPacked = False, JSONName = ''blob'',
      HasDefault = True, Default = VBytes ''ab''\<rparr>
     ''Blob'' None None None None None False"



text \<open>\<^verbatim>\<open>enum Color { RED = 0; GREEN = 1; BLUE = 1; }\<close>\<close>

definition ex_Color :: Enum where
  "ex_Color =
     \<lparr>e_GoIdent = \<lparr>GoName = ''Color'', GoImportPath = ''example.com/pkg''\<rparr>,
      e_Desc = Nested (FileDescriptor ''pkg''),
      e_Values =
        [\<lparr>v_GoIdent = \<lparr>GoName = ''Color_RED'', GoImportPath = ''example.com/pkg''\<rparr>,
          v_Name = ''RED'', v_Number = 0\<rparr>,
         \<lparr>v_GoIdent = \<lparr>GoName = ''Color_GREEN'', GoImportPath = ''example.com/pkg''\<rparr>,
          v_Name = ''GREEN'', v_Number = 1\<rparr>,
         \<lparr>v_GoIdent = \<lparr>GoName = ''Color_BLUE'', GoImportPath = ''example.com/pkg''\<rparr>,
          v_Name = ''BLUE'', v_Number = 1\<rparr>]\<rparr>"







section \<open>Properties of the type mapper\<close>

lemma map_entry_induct [case_names step]:
  assumes "\<And>field. (\<And>m x. f_MessageType field = Some m \<Longrightarrow> x \<in> set (m_Fields m) \<Longrightarrow> Q x)
             \<Longrightarrow> Q field"
  shows "Q field"
proof (induction field rule: measure_induct_rule[of size])
  case (less field)
  show ?case by (rule assms) (auto intro: less size_map_entry_field)
qed

lemma QualifiedGoIdent_P [simp]: "QualifiedGoIdent (P v g) = QualifiedGoIdent g"
  by (simp add: P_def)

lemma Quote_P [simp]: "Quote (P v g) = Quote g"
  by (simp add: P_def)

lemma buf_P [simp]: "buf (P v g) = buf g @ [concat v]"
  by (simp add: P_def)

text \<open>The type of a field depends on \<open>g\<close> only through the way it writes identifiers.\<close>

lemma fieldGoType_cong_g:
  assumes "QualifiedGoIdent g' = QualifiedGoIdent g"
  shows "fieldGoType g' field = fieldGoType g field"
proof (induction field rule: map_entry_induct)
  case (step field)
  show ?case
  proof (cases "f_MessageType field")
    case None
    then show ?thesis
      by (simp add: fieldGoType.simps[of _ field] assms cong: if_cong option.case_cong)
  next
    case (Some m)
    show ?thesis
    proof (cases "m_Fields m" rule: remdups_adj.cases)
      case 1
      then show ?thesis
        by (simp add: fieldGoType.simps[of _ field] assms Some cong: if_cong option.case_cong)
    next
      case (2 key)
      then show ?thesis
        by (simp add: fieldGoType.simps[of _ field] assms Some cong: if_cong option.case_cong)
    next
      case (3 key val rest)
      have k: "fieldGoType g' key = fieldGoType g key"
        using step[OF Some, of key] 3 by simp
      have v: "fieldGoType g' val = fieldGoType g val"
        using step[OF Some, of val] 3 by simp
      show ?thesis
        by (simp add: fieldGoType.simps[of _ field] assms Some 3 k v
              cong: if_cong option.case_cong)
    qed
  qed
qed

lemma fieldGoType_P [simp]: "fieldGoType (P v g) field = fieldGoType g field"
  by (rule fieldGoType_cong_g) simp

lemma fieldGoType_map_field:
  assumes "Kind (f_Desc field) = MessageKind \<or> Kind (f_Desc field) = GroupKind"
    and "f_MessageType field = Some m" and "md_IsMapEntry (m_Desc m)"
    and "m_Fields m = key # val # rest"
  shows "fieldGoType g field =
           do {
             (keyType, _) \<leftarrow> fieldGoType g key;
             (valType, _) \<leftarrow> fieldGoType g val;
             Some (''map['' @ keyType @ '']'' @ valType, False)
           }"
  using assms
  by (subst fieldGoType.simps)
     (auto simp: IsMap_def Let_def split: option.splits prod.splits Option.bind_splits)

lemma fieldGoType_pointer:
  assumes "fieldGoType g field = Some (goType, pointer)"
    and "Syntax (f_Desc field) = Proto3 \<or> Cardinality (f_Desc field) = Repeated"
  shows "\<not> pointer"
  using assms
  unfolding fieldGoType.simps[of g field] Let_def
  by (auto split: option.splits sum.splits prod.splits if_splits list.splits Option.bind_splits)

text \<open>On a field whose types are there, the type mapper returns.\<close>

lemma fieldGoType_total: "wfType field \<Longrightarrow> \<exists>t p. fieldGoType g field = Some (t, p)"
proof (induction field rule: map_entry_induct)
  case (step field)
  note wf = step.prems[unfolded wfType.simps[of field] Let_def]
  consider (scalar) "Kind (f_Desc field) \<notin> {EnumKind, MessageKind, GroupKind}"
    | (enum) "Kind (f_Desc field) = EnumKind"
    | (msg) "Kind (f_Desc field) = MessageKind \<or> Kind (f_Desc field) = GroupKind"
    by auto
  then show ?case
  proof cases
    case scalar
    then show ?thesis
      by (cases "Kind (f_Desc field)") (auto simp: fieldGoType.simps[of g field])
  next
    case enum
    then show ?thesis
      using wf by (auto simp: fieldGoType.simps[of g field])
  next
    case msg
    then obtain m where m: "f_MessageType field = Some m"
      using wf by (auto split: option.splits)
    show ?thesis
    proof (cases "md_IsMapEntry (m_Desc m)")
      case False
      then show ?thesis
        using msg m by (auto simp: fieldGoType.simps[of g field] IsMap_def)
    next
      case True
      then obtain key val rest where fs: "m_Fields m = key # val # rest"
        and wfk: "wfType key" and wfv: "wfType val"
        using wf msg m by (cases "m_Fields m" rule: remdups_adj.cases) auto
      obtain kt kp where k: "fieldGoType g key = Some (kt, kp)"
        using step.IH[OF m, of key] fs wfk by auto
      obtain vt vp where v: "fieldGoType g val = Some (vt, vp)"
        using step.IH[OF m, of val] fs wfv by auto
      show ?thesis
        by (auto simp: fieldGoType_map_field[OF msg m True fs] k v)
    qed
  qed
qed

text \<open>
  C6. For a map field, a field of message kind whose message type is a map entry, the
  type mapper returns the mapping type \<^verbatim>\<open>map[K]V\<close>, where \<open>K\<close> and \<open>V\<close> are the types
  it returns for the first and the second field of the map entry, and the indirection
  flag is false.
\<close>

theorem fieldGoType_map_type:
  assumes "Kind (f_Desc field) = MessageKind"
    and "f_MessageType field = Some entry" and "md_IsMapEntry (m_Desc entry)"
    and "m_Fields entry = key # val # rest"
    and "wfType key" and "wfType val"
  shows "\<exists>keyType keyPointer valType valPointer.
           fieldGoType g key = Some (keyType, keyPointer) \<and>
           fieldGoType g val = Some (valType, valPointer) \<and>
           fieldGoType g field = Some (''map['' @ keyType @ '']'' @ valType, False)"
proof -
  obtain keyType keyPointer where k: "fieldGoType g key = Some (keyType, keyPointer)"
    using fieldGoType_total[OF assms(5)] by blast
  obtain valType valPointer where v: "fieldGoType g val = Some (valType, valPointer)"
    using fieldGoType_total[OF assms(6)] by blast
  have "fieldGoType g field = Some (''map['' @ keyType @ '']'' @ valType, False)"
    using assms(1) by (simp add: fieldGoType_map_field[OF _ assms(2,3,4)] k v)
  with k v show ?thesis by blast
qed

theorem fieldGoType_map_type_witness:
  "fieldGoType ex_g ex_key = Some (''string'', False) \<and>
   fieldGoType ex_g ex_value = Some (''int32'', False) \<and>
   fieldGoType ex_g ex_tags = Some (''map[string]int32'', False)"
proof -
  have 1: "Kind (f_Desc ex_tags) = MessageKind"
    and 2: "f_MessageType ex_tags = Some ex_TagsEntry"
    and 3: "md_IsMapEntry (m_Desc ex_TagsEntry)"
    and 4: "m_Fields ex_TagsEntry = ex_key # ex_value # []"
    and 5: "wfType ex_key" and 6: "wfType ex_value"
    by (simp_all add: ex_tags_def ex_TagsEntry_def ex_key_def ex_value_def wfType.simps)
  have k: "fieldGoType ex_g ex_key = Some (''string'', False)"
    by (simp add: fieldGoType.simps ex_key_def)
  have v: "fieldGoType ex_g ex_value = Some (''int32'', False)"
    by (simp add: fieldGoType.simps ex_value_def)
  show ?thesis
    using fieldGoType_map_type[OF 1 2 3 4 5 6, of ex_g] by (simp add: k v)
qed

text \<open>
  C7. The indirection flag the type mapper returns is false for every field of a proto3
  file, and for every repeated field whatever its syntax and kind.
\<close>

theorem fieldGoType_not_indirect:
  assumes "wfType field"
    and "Syntax (f_Desc field) = Proto3 \<or> Cardinality (f_Desc field) = Repeated"
  shows "\<exists>goType. fieldGoType g field = Some (goType, False)"
proof -
  obtain goType pointer where r: "fieldGoType g field = Some (goType, pointer)"
    using fieldGoType_total[OF assms(1)] by blast
  then have "\<not> pointer"
    using assms(2) by (rule fieldGoType_pointer)
  with r show ?thesis by auto
qed

theorem fieldGoType_not_indirect_witness:
  "fieldGoType ex_g ex_id = Some (''int32'', False) \<and>
   fieldGoType ex_g ex_tags = Some (''map[string]int32'', False)"
proof -
  have 1: "wfType ex_id" and 2: "Syntax (f_Desc ex_id) = Proto3"
    by (simp_all add: ex_id_def wfType.simps)
  have 3: "wfType ex_tags" and 4: "Cardinality (f_Desc ex_tags) = Repeated"
    by (simp_all add: ex_tags_def ex_TagsEntry_def ex_key_def ex_value_def wfType.simps)
  have a: "\<And>t p. fieldGoType ex_g ex_id = Some (t, p) \<Longrightarrow> t = ''int32''"
    by (simp add: fieldGoType.simps ex_id_def)
  have b: "\<And>t p. fieldGoType ex_g ex_tags = Some (t, p) \<Longrightarrow> t = ''map[string]int32''"
    by (simp add: fieldGoType.simps ex_tags_def ex_TagsEntry_def ex_key_def ex_value_def
          IsMap_def)
  show ?thesis
    using fieldGoType_not_indirect[OF 1 disjI1[OF 2], of ex_g]
      fieldGoType_not_indirect[OF 3 disjI2[OF 4], of ex_g] a b
    by auto
qed

section \<open>Properties of the default value resolver\<close>

text \<open>
  C5. A field is considered to have a default iff it declares one and either its kind
  is neither string nor bytes or the declared default is not empty. A string field with
  the default \<^verbatim>\<open>""\<close> and a bytes field with an empty default are treated as fields
  without default.
\<close>

theorem fieldHasDefault_nontrivial:
  assumes "typedDefault (f_Desc field)"
  shows "fieldHasDefault field =
           Some (HasDefault (f_Desc field) \<and>
                 (Kind (f_Desc field) \<notin> {StringKind, BytesKind} \<or>
                  Default (f_Desc field) \<notin> {VString [], VBytes []}))"
  using assms
  by (cases "Kind (f_Desc field)"; cases "Default (f_Desc field)")
     (simp_all add: fieldHasDefault_def typedDefault_def String_def Bytes_def)

theorem fieldHasDefault_nontrivial_witness:
  "HasDefault (f_Desc ex_note) \<and> fieldHasDefault ex_note = Some False \<and>
   fieldHasDefault ex_name = Some True \<and> fieldHasDefault ex_id = Some False"
proof -
  have 1: "typedDefault (f_Desc ex_note)" and 2: "typedDefault (f_Desc ex_name)"
    and 3: "typedDefault (f_Desc ex_id)"
    by (simp_all add: typedDefault_def ex_note_def ex_name_def ex_id_def)
  show ?thesis
    using fieldHasDefault_nontrivial[OF 1] fieldHasDefault_nontrivial[OF 2]
      fieldHasDefault_nontrivial[OF 3]
    by (simp add: ex_note_def ex_name_def ex_id_def)
qed

lemma fieldHasDefault_typed:
  "typedDefault (f_Desc field) \<Longrightarrow>
   fieldHasDefault field = Some (nontrivialDefault (f_Desc field))"
  by (cases "Kind (f_Desc field)"; cases "Default (f_Desc field)")
     (simp_all add: fieldHasDefault_def typedDefault_def String_def Bytes_def
        nontrivialDefault_def)


text \<open>
  C3. For a field that is not repeated, the value a getter returns when the field is
  unset is: the holder of the default when the field has a default that counts, and a
  fresh copy of the holder when the field is of bytes kind; otherwise \<^verbatim>\<open>false\<close> for
  bool, the empty string literal for string, \<^verbatim>\<open>nil\<close> for message, group and bytes,
  the first declared value of the enum for enum (whatever its number), and \<^verbatim>\<open>0\<close> for
  the other scalar kinds.
\<close>

theorem fieldDefaultValue_unset:
  assumes "Cardinality (f_Desc field) \<noteq> Repeated" and "typedDefault (f_Desc field)"
  shows "fieldDefaultValue g message field =
           (let holder = ''Default_'' @ GoName (m_GoIdent message) @ ''_'' @ f_GoName field;
                k = Kind (f_Desc field)
            in if nontrivialDefault (f_Desc field) then
                 Some (if k = BytesKind then ''append([]byte(nil), '' @ holder @ ''...)''
                       else holder)
               else if k = BoolKind then Some ''false''
               else if k = StringKind then Some [CHR 0x22, CHR 0x22]
               else if k \<in> {MessageKind, GroupKind, BytesKind} then Some ''nil''
               else if k = EnumKind then
                 (case f_EnumType field of
                    None \<Rightarrow> None
                  | Some e \<Rightarrow>
                      (case e_Values e of
                         [] \<Rightarrow> None
                       | first # _ \<Rightarrow> Some (QualifiedGoIdent g (v_GoIdent first))))
               else Some ''0'')"
  using assms
  by (cases "Kind (f_Desc field)")
     (simp_all add: fieldDefaultValue_def fieldHasDefault_typed Let_def)

theorem fieldDefaultValue_unset_witness:
  "fieldDefaultValue ex_g ex_Msg ex_name = Some ''Default_Msg_Name'' \<and>
   fieldDefaultValue ex_g ex_Msg ex_blob = Some ''append([]byte(nil), Default_Msg_Blob...)'' \<and>
   fieldDefaultValue ex_g ex_Msg ex_level = Some ''Level_HIGH'' \<and>
   fieldDefaultValue ex_g ex_Msg ex_note = Some [CHR 0x22, CHR 0x22] \<and>
   fieldDefaultValue ex_g ex_Msg ex_id = Some ''0''"
proof -
  have c: "Cardinality (f_Desc ex_name) \<noteq> Repeated" "Cardinality (f_Desc ex_blob) \<noteq> Repeated"
    "Cardinality (f_Desc ex_level) \<noteq> Repeated" "Cardinality (f_Desc ex_note) \<noteq> Repeated"
    "Cardinality (f_Desc ex_id) \<noteq> Repeated"
    by (simp_all add: ex_name_def ex_blob_def ex_level_def ex_note_def ex_id_def)
  have t: "typedDefault (f_Desc ex_name)" "typedDefault (f_Desc ex_blob)"
    "typedDefault (f_Desc ex_level)" "typedDefault (f_Desc ex_note)"
    "typedDefault (f_Desc ex_id)"
    by (simp_all add: typedDefault_def ex_name_def ex_blob_def ex_level_def ex_note_def
          ex_id_def)
  show ?thesis
    using fieldDefaultValue_unset[OF c(1) t(1), of ex_g ex_Msg]
      fieldDefaultValue_unset[OF c(2) t(2), of ex_g ex_Msg]
      fieldDefaultValue_unset[OF c(3) t(3), of ex_g ex_Msg]
      fieldDefaultValue_unset[OF c(4) t(4), of ex_g ex_Msg]
      fieldDefaultValue_unset[OF c(5) t(5), of ex_g ex_Msg]
    by (simp add: nontrivialDefault_def ex_name_def ex_blob_def ex_level_def ex_note_def
          ex_id_def ex_Msg_def ex_Level_def ex_g_def)
qed



section \<open>Properties of the tag encoder\<close>

lemma tagDefault_typed:
  "typedDefault d \<Longrightarrow> HasDefault d \<Longrightarrow> \<exists>def. tagDefault d = Some def"
  by (cases "Default d")
     (auto simp: typedDefault_def tagDefault_def Bool_def Bytes_def Float_def)

lemma if_append_singleton: "(if c then tag @ [x] else tag) = tag @ (if c then [x] else [])"
  by simp

lemma case_Cardinality_append:
  "(case c of Optional \<Rightarrow> tag @ [a] | Required \<Rightarrow> tag @ [b] | Repeated \<Rightarrow> tag @ [r]) =
   tag @ [case c of Optional \<Rightarrow> a | Required \<Rightarrow> b | Repeated \<Rightarrow> r]"
  by (cases c) simp_all

lemma fieldProtobufTag_tokens:
  assumes "wfTag field"
  shows "fieldProtobufTag field =
           Some (Join (tagTokens (JSONName (f_Desc field) \<noteq> [] \<and>
                                  JSONName (f_Desc field) \<noteq> wireName field) field) '','')"
proof -
  let ?d = "f_Desc field"
  obtain name where name:
    "(if Kind ?d = GroupKind then map_option (\<lambda>m. md_Name (m_Desc m)) (f_MessageType field)
      else Some (Name ?d)) = Some name" and wn: "wireName field = name"
    using assms by (cases "Kind ?d = GroupKind") (auto simp: wfTag_def wireName_def)
  have enum: "\<And>tag. (if Kind ?d = EnumKind
              then map_option (\<lambda>e. tag @ [''enum='' @ enumRegistryName e]) (f_EnumType field)
              else Some tag) =
          Some (tag @ (if Kind ?d = EnumKind
                 then [''enum='' @ (case f_EnumType field of Some e \<Rightarrow> enumRegistryName e
                                    | None \<Rightarrow> [])]
                 else []))"
    using assms by (cases "Kind ?d = EnumKind") (auto simp: wfTag_def)
  have def: "\<And>tag. (if HasDefault ?d
              then tagDefault ?d \<bind> (\<lambda>def. Some (tag @ [''def='' @ def]))
              else Some tag) =
          Some (tag @ (if HasDefault ?d
                 then [''def='' @ (case tagDefault ?d of Some def \<Rightarrow> def | None \<Rightarrow> [])]
                 else []))"
    using assms tagDefault_typed[of ?d] by (cases "HasDefault ?d") (auto simp: wfTag_def)
  show ?thesis
    unfolding fieldProtobufTag_def tagTokens_def Let_def name enum def wn
      if_append_singleton case_Cardinality_append cardinalityToken_def
    by (simp split del: if_split)
qed

text \<open>
  C1, as amended. For every field, the tag is the tokens joined by commas in this order:
  wire type, field number, cardinality, \<^verbatim>\<open>packed\<close> iff the field is packed, the name
  on the wire, the JSON name iff it is not empty and differs from the name on the wire,
  \<^verbatim>\<open>proto3\<close> iff the syntax is proto3, the registry name of the enum iff the kind is
  enum, \<^verbatim>\<open>oneof\<close> iff the field is in a oneof, and the encoded default iff the field
  declares a default; the token of the default, when there, is the last one.
\<close>

theorem fieldProtobufTag_token_order:
  assumes "wfTag field"
  shows "fieldProtobufTag field =
           Some (Join (tagTokens (JSONName (f_Desc field) \<noteq> [] \<and>
                                  JSONName (f_Desc field) \<noteq> wireName field) field) '','') \<and>
         (HasDefault (f_Desc field) \<longrightarrow>
            (\<exists>def. tagDefault (f_Desc field) = Some def \<and>
                   last (tagTokens (JSONName (f_Desc field) \<noteq> [] \<and>
                                    JSONName (f_Desc field) \<noteq> wireName field) field)
                   = ''def='' @ def))"
proof (intro conjI impI)
  show "fieldProtobufTag field =
          Some (Join (tagTokens (JSONName (f_Desc field) \<noteq> [] \<and>
                                 JSONName (f_Desc field) \<noteq> wireName field) field) '','')"
    using assms by (rule fieldProtobufTag_tokens)
next
  assume h: "HasDefault (f_Desc field)"
  then obtain def where "tagDefault (f_Desc field) = Some def"
    using assms tagDefault_typed[of "f_Desc field"] by (auto simp: wfTag_def)
  then show "\<exists>def. tagDefault (f_Desc field) = Some def \<and>
               last (tagTokens (JSONName (f_Desc field) \<noteq> [] \<and>
                                JSONName (f_Desc field) \<noteq> wireName field) field)
               = ''def='' @ def"
    using h by (simp add: tagTokens_def Let_def)
qed

lemma Itoa_examples [simp]:
  "Itoa 0 = ''0''" "Itoa 1 = ''1''" "Itoa 2 = ''2''" "Itoa 100 = ''100''"
  by (simp_all add: Itoa_def digits.simps)

theorem fieldProtobufTag_token_order_witness:
  "fieldProtobufTag ex_id = Some ''varint,1,opt,name=id,proto3'' \<and>
   fieldProtobufTag ex_name = Some ''bytes,2,opt,name=name,def=x'' \<and>
   tagDefault (f_Desc ex_name) = Some ''x''"
proof -
  have 1: "wfTag ex_id" and 2: "wfTag ex_name"
    by (simp_all add: wfTag_def typedDefault_def ex_id_def ex_name_def)
  have d: "tagDefault (f_Desc ex_name) = Some ''x''"
    by (simp add: tagDefault_def ex_name_def Sprint_def)
  show ?thesis
    using fieldProtobufTag_token_order[OF 1] fieldProtobufTag_token_order[OF 2] d
    by (simp add: tagTokens_def wireName_def cardinalityToken_def ex_id_def ex_name_def)
qed

text \<open>
  C1 as stated fails on an extension: it has no JSON name, so its JSON name differs from
  its name on the wire, and its tag has no token of the JSON name.
\<close>

theorem fieldProtobufTag_json_counterexample:
  "wfTag ex_ext \<and>
   JSONName (f_Desc ex_ext) \<noteq> wireName ex_ext \<and>
   fieldProtobufTag ex_ext = Some ''varint,100,opt,name=ext'' \<and>
   claimedTag ex_ext = ''varint,100,opt,name=ext,json='' \<and>
   fieldProtobufTag ex_ext \<noteq> Some (claimedTag ex_ext)"
  by (simp add: wfTag_def typedDefault_def fieldProtobufTag_def claimedTag_def tagTokens_def
        wireName_def cardinalityToken_def ex_ext_def)

section \<open>Properties of the enum emitter\<close>

lemma genEnumNames_env [simp]:
  "Quote (genEnumNames vs generated g) = Quote g"
  "QualifiedGoIdent (genEnumNames vs generated g) = QualifiedGoIdent g"
  by (induction vs arbitrary: generated g) (simp_all add: Let_def)

lemma genEnumNumbers_env [simp]:
  "Quote (genEnumNumbers vs g) = Quote g"
  "QualifiedGoIdent (genEnumNumbers vs g) = QualifiedGoIdent g"
  by (induction vs arbitrary: g) simp_all

lemma genEnumNames_buf:
  "buf (genEnumNames vs generated g) =
     buf g @ map (\<lambda>i. (if generated (v_Number (vs ! i)) \<noteq> None \<or>
                          v_Number (vs ! i) \<in> v_Number ` set (take i vs)
                       then ''// Duplicate value: '' else [])
                      @ Itoa (v_Number (vs ! i)) @ '': '' @ Quote g (v_Name (vs ! i)) @ '','')
              [0..<length vs]"
proof (induction vs arbitrary: generated g)
  case Nil
  then show ?case by simp
next
  case (Cons v vs)
  have shift: "\<And>f n. map f [0..<Suc n] = f 0 # map (\<lambda>i. f (Suc i)) [0..<n]"
    by (simp add: map_upt_Suc del: upt_Suc)
  show ?case
    unfolding genEnumNames.simps Let_def Cons.IH length_Cons shift
    by (auto simp del: upt_Suc)
qed

lemma genEnumNumbers_buf:
  "buf (genEnumNumbers vs g) = buf g @ map (numberEntry g) vs"
  by (induction vs arbitrary: g) (simp_all add: numberEntry_def)

text \<open>
  C8. The table from numbers to names has one entry for every declared value, in the
  order of declaration, and the entry of a value whose number repeats the number of an
  earlier value is marked as a duplicate; the table from names to numbers has one entry
  for every declared value, none marked.
\<close>

theorem genEnumTables_entries:
  "buf (genEnumTables enum g) =
     buf g
     @ [''var '' @ GoName (e_GoIdent enum) @ ''_name = map[int32]string{'']
     @ map (nameEntry g (e_Values enum)) [0..<length (e_Values enum)]
     @ [''}'', [], ''var '' @ GoName (e_GoIdent enum) @ ''_value = map[string]int32{'']
     @ map (numberEntry g) (e_Values enum)
     @ [''}'', []]"
  by (simp add: genEnumTables_def Let_def genEnumNames_buf genEnumNumbers_buf nameEntry_def
        numberEntry_def)

theorem genEnumTables_entries_witness:
  "buf (genEnumTables ex_Color ex_g) =
     [''var Color_name = map[int32]string{'',
      ''0: '' @ quoted ''RED'' @ '','',
      ''1: '' @ quoted ''GREEN'' @ '','',
      ''// Duplicate value: 1: '' @ quoted ''BLUE'' @ '','',
      ''}'',
      [],
      ''var Color_value = map[string]int32{'',
      quoted ''RED'' @ '': 0,'',
      quoted ''GREEN'' @ '': 1,'',
      quoted ''BLUE'' @ '': 1,'',
      ''}'',
      []]"
  using genEnumTables_entries[of ex_Color ex_g]
  by (simp add: ex_Color_def ex_g_def nameEntry_def numberEntry_def upt_rec)

section \<open>Properties of the getters\<close>



section \<open>Properties of the initialization block\<close>

lemma fieldGoType_buf [simp]: "fieldGoType (g\<lparr>buf := b\<rparr>) field = fieldGoType g field"
  by (rule fieldGoType_cong_g) simp

lemma registerExtensionLines_buf [simp]:
  "registerExtensionLines (g\<lparr>buf := b\<rparr>) f = registerExtensionLines g f"
  by (rule ext) (simp add: registerExtensionLines_def)

lemma registerEnumLine_buf [simp]: "registerEnumLine (g\<lparr>buf := b\<rparr>) = registerEnumLine g"
  by (rule ext) (simp add: registerEnumLine_def)

lemma registerMapTypeLine_buf [simp]:
  "registerMapTypeLine (g\<lparr>buf := b\<rparr>) = registerMapTypeLine g"
  by (rule ext) (simp add: registerMapTypeLine_def)

lemma registerMessageLines_buf [simp]:
  "registerMessageLines (g\<lparr>buf := b\<rparr>) f = registerMessageLines g f"
  by (rule ext) (simp add: registerMessageLines_def registerTypeLine_def)











lemma declarationOrder_Nil [simp]: "declarationOrder ms = [] \<longleftrightarrow> ms = []"
  by (cases ms) simp_all



section \<open>Properties of the descriptor embedding and of failure\<close>












end
